theory Spec2Isabelle
  imports Complex_Main
begin

section \<open>Campaign payloads\<close>

text \<open>
  The reporting code reads the campaign payload that the Gophish API returns as nested
  dictionaries, always through \<^verbatim>\<open>dict.get\<close>.  Each dictionary becomes a record with
  one optional field per key the code reads: \<open>None\<close> is an absent key, \<open>Some v\<close> a
  present one.  The values of \<^verbatim>\<open>name\<close>, \<^verbatim>\<open>status\<close>, \<^verbatim>\<open>email\<close>, \<^verbatim>\<open>type\<close> and
  \<^verbatim>\<open>time\<close> are strings, as the API types them.
\<close>

record event =
  ev_type :: "string option"
  ev_email :: "string option"
  ev_time :: "string option"

record result =
  res_email :: "string option"
  res_status :: "string option"
  res_events :: "event list option"

record campaign =
  camp_name :: "string option"
  camp_status :: "string option"
  camp_results :: "result list option"

text \<open>\<^verbatim>\<open>d.get(key, default)\<close>.\<close>

definition get_or :: "'a option \<Rightarrow> 'a \<Rightarrow> 'a" where
  "get_or v dflt = (case v of None \<Rightarrow> dflt | Some x \<Rightarrow> x)"

text \<open>Truth value of \<^verbatim>\<open>d.get(key)\<close> for a string field: absent and empty are false.\<close>

definition truthy :: "string option \<Rightarrow> bool" where
  "truthy v = (case v of None \<Rightarrow> False | Some s \<Rightarrow> s \<noteq> [])"

text \<open>\<^verbatim>\<open>str(d.get(key))\<close>: a string is itself, \<^verbatim>\<open>None\<close> prints as its name.\<close>

definition py_str :: "string option \<Rightarrow> string" where
  "py_str v = (case v of None \<Rightarrow> ''None'' | Some s \<Rightarrow> s)"

section \<open>Metrics (reporting.py)\<close>

record campaign_metrics =
  total_recipients :: int
  opened :: int
  clicked :: int
  open_rate :: real
  click_rate :: real

text \<open>
  \<^verbatim>\<open>_unique_ids\<close>: the set comprehension over the events of one type whose email is
  truthy.
\<close>

definition unique_ids :: "event list \<Rightarrow> string \<Rightarrow> string set" where
  "unique_ids events event_type =
     set (map (\<lambda>event. py_str (ev_email event))
            (filter (\<lambda>event. ev_type event = Some event_type \<and> truthy (ev_email event)) events))"

text \<open>
  The loop \<^verbatim>\<open>for result in results: all_events.extend(result.get("events", []))\<close>,
  with the list built so far as accumulator.
\<close>

fun extend_all :: "event list \<Rightarrow> result list \<Rightarrow> event list" where
  "extend_all all_events [] = all_events"
| "extend_all all_events (r # results) = extend_all (all_events @ get_or (res_events r) []) results"

text \<open>\<^verbatim>\<open>sum(event.get("type") == event_type for event in all_events)\<close>.\<close>

definition sum_type :: "event list \<Rightarrow> string \<Rightarrow> int" where
  "sum_type all_events event_type =
     (\<Sum>event\<leftarrow>all_events. if ev_type event = Some event_type then 1 else 0)"

text \<open>
  \<^verbatim>\<open>compute_metrics\<close>.  The two rates are Python floats; they are modelled as exact
  reals, so rounding of the quotient is not part of the model.
\<close>

definition compute_metrics :: "campaign \<Rightarrow> bool \<Rightarrow> bool \<Rightarrow> campaign_metrics" where
  "compute_metrics c unique_opens_only unique_clicks_only =
     (let results = get_or (camp_results c) [];
          total = int (length results);
          all_events = extend_all [] results;
          opened_count =
            (if unique_opens_only then int (card (unique_ids all_events ''Opened Email''))
             else sum_type all_events ''Opened Email'');
          clicked_count =
            (if unique_clicks_only then int (card (unique_ids all_events ''Clicked Link''))
             else sum_type all_events ''Clicked Link'')
      in \<lparr> total_recipients = total,
           opened = opened_count,
           clicked = clicked_count,
           open_rate = (if total \<noteq> 0 then (real_of_int opened_count / real_of_int total) * 100 else 0),
           click_rate = (if total \<noteq> 0 then (real_of_int clicked_count / real_of_int total) * 100 else 0) \<rparr>)"

section \<open>Per-recipient rows (reporting.py)\<close>

text \<open>The dictionary that \<^verbatim>\<open>build_recipient_rows\<close> appends for each result: ten fixed keys.\<close>

record recipient_row =
  campaign_name :: string
  campaign_status :: string
  recipient_email :: string
  recipient_status :: string
  open_count :: int
  click_count :: int
  first_open_time :: string
  first_click_time :: string
  last_event_type :: string
  last_event_time :: string

text \<open>\<^verbatim>\<open>_extract_event_times\<close>: the list comprehension, in the order of the events.\<close>

definition extract_event_times :: "event list \<Rightarrow> string \<Rightarrow> string list" where
  "extract_event_times events event_type =
     map (\<lambda>event. py_str (ev_time event))
       (filter (\<lambda>event. ev_type event = Some event_type \<and> truthy (ev_time event)) events)"

text \<open>The empty dictionary \<^verbatim>\<open>{}\<close> that stands for the last event of a result without events.\<close>

definition no_event :: event where
  "no_event = \<lparr> ev_type = None, ev_email = None, ev_time = None \<rparr>"

text \<open>The body of the loop of \<^verbatim>\<open>build_recipient_rows\<close>: the row of one result.\<close>

definition recipient_row_of :: "string \<Rightarrow> string \<Rightarrow> result \<Rightarrow> recipient_row" where
  "recipient_row_of name status r =
     (let events = get_or (res_events r) [];
          opened_times = extract_event_times events ''Opened Email'';
          clicked_times = extract_event_times events ''Clicked Link'';
          first_open = (case opened_times of [] \<Rightarrow> [] | t # _ \<Rightarrow> t);
          first_click = (case clicked_times of [] \<Rightarrow> [] | t # _ \<Rightarrow> t);
          last_event = (if events \<noteq> [] then last events else no_event)
      in \<lparr> campaign_name = name,
           campaign_status = status,
           recipient_email = get_or (res_email r) [],
           recipient_status = get_or (res_status r) [],
           open_count = int (length opened_times),
           click_count = int (length clicked_times),
           first_open_time = first_open,
           first_click_time = first_click,
           last_event_type = get_or (ev_type last_event) [],
           last_event_time = get_or (ev_time last_event) [] \<rparr>)"

text \<open>The loop \<^verbatim>\<open>for result in ...: rows.append(...)\<close>, with \<open>rows\<close> as accumulator.\<close>

fun append_rows :: "string \<Rightarrow> string \<Rightarrow> recipient_row list \<Rightarrow> result list \<Rightarrow> recipient_row list" where
  "append_rows name status rows [] = rows"
| "append_rows name status rows (r # results) =
     append_rows name status (rows @ [recipient_row_of name status r]) results"

definition build_recipient_rows :: "campaign \<Rightarrow> recipient_row list" where
  "build_recipient_rows c =
     append_rows (get_or (camp_name c) ''<unknown>'') (get_or (camp_status c) ''<unknown>'') []
       (get_or (camp_results c) [])"

section \<open>CSV export (reporting.py)\<close>

text \<open>
  \<^verbatim>\<open>export_csv\<close> writes through \<^verbatim>\<open>csv.DictWriter\<close> of the Python standard library with
  its default dialect (excel): delimiter comma, quote character \<open>"\<close>, doubled quotes,
  minimal quoting, line terminator CR LF.  The library is modelled here as far as the
  export uses it.
\<close>

abbreviation COMMA :: char where "COMMA \<equiv> CHR 0x2C"
abbreviation DQUOTE :: char where "DQUOTE \<equiv> CHR 0x22"
abbreviation CR :: char where "CR \<equiv> CHR 0x0D"
abbreviation LF :: char where "LF \<equiv> CHR 0x0A"

definition lineterminator :: string where
  "lineterminator = [CR, LF]"

text \<open>Python's \<^verbatim>\<open>str\<close> of an integer: decimal digits, a minus sign when negative.\<close>

definition digit_char :: "nat \<Rightarrow> char" where
  "digit_char d = ''0123456789'' ! d"

function str_nat :: "nat \<Rightarrow> string" where
  "str_nat n = (if n < 10 then [digit_char n] else str_nat (n div 10) @ [digit_char (n mod 10)])"
  by pat_completeness auto
termination
  by (relation "measure id") auto

declare str_nat.simps [simp del]

definition str_int :: "int \<Rightarrow> string" where
  "str_int i = (if i < 0 then CHR ''-'' # str_nat (nat (- i)) else str_nat (nat i))"

text \<open>
  Minimal quoting: a field is quoted when it holds the delimiter, the quote character or
  a character of the line terminator; inside the quotes every quote character is doubled.
\<close>

definition needs_quotes :: "string \<Rightarrow> bool" where
  "needs_quotes s = list_ex (\<lambda>c. c = COMMA \<or> c = DQUOTE \<or> c \<in> set lineterminator) s"

definition double_quotes :: "string \<Rightarrow> string" where
  "double_quotes s = concat (map (\<lambda>c. if c = DQUOTE then [DQUOTE, DQUOTE] else [c]) s)"

definition csv_field :: "string \<Rightarrow> string" where
  "csv_field s = (if needs_quotes s then DQUOTE # double_quotes s @ [DQUOTE] else s)"

fun join_fields :: "string list \<Rightarrow> string" where
  "join_fields [] = []"
| "join_fields [f] = csv_field f"
| "join_fields (f # fs) = csv_field f @ COMMA # join_fields fs"

text \<open>
  \<^verbatim>\<open>writer.writerow\<close>: the joined fields and the line terminator; a record that is one
  empty field is written as a pair of quotes.
\<close>

definition writerow :: "string list \<Rightarrow> string" where
  "writerow fs =
     (let rec = join_fields fs
      in (if 0 < length fs \<and> rec = [] then [DQUOTE, DQUOTE] else rec) @ lineterminator)"

definition fieldnames :: "string list" where
  "fieldnames =
     [''campaign_name'', ''campaign_status'', ''recipient_email'', ''recipient_status'',
      ''open_count'', ''click_count'', ''first_open_time'', ''first_click_time'',
      ''last_event_type'', ''last_event_time'']"

text \<open>
  \<^verbatim>\<open>DictWriter._dict_to_list\<close>: the values of a row in the order of \<open>fieldnames\<close>, each
  as the writer prints it (a string as it is, an integer through \<^verbatim>\<open>str\<close>).
\<close>

definition row_values :: "recipient_row \<Rightarrow> string list" where
  "row_values row =
     [campaign_name row, campaign_status row, recipient_email row, recipient_status row,
      str_int (open_count row), str_int (click_count row), first_open_time row,
      first_click_time row, last_event_type row, last_event_time row]"

text \<open>\<^verbatim>\<open>writer.writeheader()\<close> followed by \<^verbatim>\<open>writer.writerows(rows)\<close>.\<close>

definition csv_document :: "recipient_row list \<Rightarrow> string" where
  "csv_document rows = concat (map writerow (fieldnames # map row_values rows))"

text \<open>
  Files: a map from paths to contents.  \<^verbatim>\<open>open(output_path, "w")\<close> truncates or creates
  the file; the destination is taken to be writable.
\<close>

type_synonym filesystem = "string \<rightharpoonup> string"

definition export_csv :: "recipient_row list \<Rightarrow> string \<Rightarrow> filesystem \<Rightarrow> filesystem" where
  "export_csv rows output_path fs = fs(output_path \<mapsto> csv_document rows)"

section \<open>Reading a CSV file back\<close>

text \<open>
  The repository has no reader; re-reading is \<^verbatim>\<open>csv.reader\<close> of the standard library
  over the file opened with \<^verbatim>\<open>newline=""\<close>, in the same dialect.  Its parser is a state
  machine over the characters of each line, with an end-of-line step after every line;
  a line ends after LF, after a CR that no LF follows, or with the text.
\<close>

datatype parser_state =
  START_RECORD | START_FIELD | IN_FIELD | IN_QUOTED_FIELD | QUOTE_IN_QUOTED_FIELD | EAT_CRNL

datatype line_position = LINE_START | IN_LINE | AFTER_CR

record reader =
  rd_state :: parser_state
  rd_field :: string
  rd_fields :: "string list"
  rd_records :: "string list list"
  rd_line :: line_position












section \<open>Configuration and API client (config.py, gophish\_client.py)\<close>

datatype config_error = ConfigError string

datatype gophish_error = GophishError string

record campaign_config =
  cc_name :: string
  cc_group_name :: string
  cc_template_name :: string
  cc_page_name :: string
  cc_sending_profile_name :: string
  cc_url :: string
  cc_launch_date :: "string option"

record reporting_config =
  rc_unique_clicks_only :: bool
  rc_unique_opens_only :: bool

record app_config =
  allow_live_send :: bool
  cfg_dry_run :: bool
  base_url :: string
  api_key :: string
  verify_tls :: bool
  cfg_campaign :: campaign_config
  reporting :: reporting_config

record gophish_resource =
  gr_id :: int
  gr_name :: string

text \<open>\<^verbatim>\<open>", ".join(names)\<close>.\<close>

fun join_comma :: "string list \<Rightarrow> string" where
  "join_comma [] = []"
| "join_comma [n] = n"
| "join_comma (n # ns) = n @ '', '' @ join_comma ns"

text \<open>\<^verbatim>\<open>find_by_name\<close>: the first resource of that name, or the error that lists the names.\<close>

definition find_by_name :: "gophish_resource list \<Rightarrow> string \<Rightarrow> gophish_error + gophish_resource" where
  "find_by_name resources name =
     (case find (\<lambda>item. gr_name item = name) resources of
        Some item \<Rightarrow> Inr item
      | None \<Rightarrow>
          (let names = (if join_comma (map gr_name resources) = [] then ''<none>''
                        else join_comma (map gr_name resources))
           in Inl (GophishError (''Resource '' @ [CHR 0x27] @ name @ [CHR 0x27]
                                 @ '' not found. Available: '' @ names))))"

section \<open>The command line flow (main.py)\<close>

definition CONFIRM_PHRASE :: string where
  "CONFIRM_PHRASE = ''I-UNDERSTAND-THIS-IS-AWARENESS''"

text \<open>The parsed arguments, as \<^verbatim>\<open>argparse\<close> delivers them.\<close>

record args =
  arg_config :: string
  arg_dry_run :: bool
  arg_report_only :: bool
  arg_campaign_id :: "int option"
  arg_csv_out :: "string option"
  arg_poll_interval :: int
  arg_poll_count :: int
  arg_confirm :: string

text \<open>The \<^verbatim>\<open>{"id": ..., "name": ...}\<close> entries of the campaign payload, and the payload.\<close>

record resource_ref =
  ref_id :: int
  ref_name :: string

record payload =
  p_name :: string
  p_template :: resource_ref
  p_page :: resource_ref
  p_url :: string
  p_smtp :: resource_ref
  p_groups :: "resource_ref list"
  p_template_id :: int
  p_page_id :: int
  p_smtp_id :: int
  p_group_ids :: "int list"
  p_launch_date :: "string option"

text \<open>The answer of the API to the creation of a campaign, of which the flow reads the id.\<close>

record created =
  created_id :: "int option"

text \<open>
  What the flow does to the outside, in order: requests of the client, output, exports and
  sleeps.  The report and the plan are recorded with the values they are rendered from.
\<close>

datatype action =
    Stderr string
  | Stdout string
  | Print_report campaign campaign_metrics
  | Print_plan payload
  | Call_list_groups
  | Call_list_templates
  | Call_list_pages
  | Call_list_sending_profiles
  | Call_create_campaign payload
  | Call_get_campaign int
  | Call_export_csv "recipient_row list" string
  | Sleep int

text \<open>
  The outside as the flow meets it: the configuration that \<^verbatim>\<open>load_config\<close> returns or
  the \<^verbatim>\<open>ConfigError\<close> it raises, the answer (or \<^verbatim>\<open>GophishError\<close>) of each request, the
  answers of the successive fetches of the campaign, and the files.
\<close>

record world =
  w_config :: "config_error + app_config"
  w_groups :: "gophish_error + gophish_resource list"
  w_templates :: "gophish_error + gophish_resource list"
  w_pages :: "gophish_error + gophish_resource list"
  w_sending_profiles :: "gophish_error + gophish_resource list"
  w_create :: "gophish_error + created"
  w_fetches :: "(gophish_error + campaign) list"
  w_files :: filesystem

text \<open>
  The result of a run: the value \<^verbatim>\<open>run\<close> returned, or \<open>Polling\<close> when the loop asks
  for a fetch beyond the answers given; what it did; the files it leaves.
\<close>

datatype exit_status = Returned int | Polling

record outcome =
  out_status :: exit_status
  out_trace :: "action list"
  out_files :: filesystem

definition ref_of :: "gophish_resource \<Rightarrow> resource_ref" where
  "ref_of item = \<lparr> ref_id = gr_id item, ref_name = gr_name item \<rparr>"

text \<open>
  \<^verbatim>\<open>_build_campaign_payload\<close>: four list requests, each followed by the lookup by name;
  the first error ends it.  The requests made come with the result.
\<close>

definition build_campaign_payload :: "app_config \<Rightarrow> world \<Rightarrow> (gophish_error + payload) \<times> action list" where
  "build_campaign_payload config w =
     (let cc = cfg_campaign config in
      case w_groups w of
        Inl e \<Rightarrow> (Inl e, [Call_list_groups])
      | Inr gs \<Rightarrow>
     (case find_by_name gs (cc_group_name cc) of
        Inl e \<Rightarrow> (Inl e, [Call_list_groups])
      | Inr grp \<Rightarrow>
     (case w_templates w of
        Inl e \<Rightarrow> (Inl e, [Call_list_groups, Call_list_templates])
      | Inr ts \<Rightarrow>
     (case find_by_name ts (cc_template_name cc) of
        Inl e \<Rightarrow> (Inl e, [Call_list_groups, Call_list_templates])
      | Inr tmpl \<Rightarrow>
     (case w_pages w of
        Inl e \<Rightarrow> (Inl e, [Call_list_groups, Call_list_templates, Call_list_pages])
      | Inr ps \<Rightarrow>
     (case find_by_name ps (cc_page_name cc) of
        Inl e \<Rightarrow> (Inl e, [Call_list_groups, Call_list_templates, Call_list_pages])
      | Inr pg \<Rightarrow>
     (case w_sending_profiles w of
        Inl e \<Rightarrow> (Inl e, [Call_list_groups, Call_list_templates, Call_list_pages,
                          Call_list_sending_profiles])
      | Inr sps \<Rightarrow>
     (case find_by_name sps (cc_sending_profile_name cc) of
        Inl e \<Rightarrow> (Inl e, [Call_list_groups, Call_list_templates, Call_list_pages,
                          Call_list_sending_profiles])
      | Inr prof \<Rightarrow>
          (Inr \<lparr> p_name = cc_name cc,
                 p_template = ref_of tmpl,
                 p_page = ref_of pg,
                 p_url = cc_url cc,
                 p_smtp = ref_of prof,
                 p_groups = [ref_of grp],
                 p_template_id = gr_id tmpl,
                 p_page_id = gr_id pg,
                 p_smtp_id = gr_id prof,
                 p_group_ids = [gr_id grp],
                 p_launch_date = (if truthy (cc_launch_date cc) then cc_launch_date cc else None) \<rparr>,
           [Call_list_groups, Call_list_templates, Call_list_pages,
            Call_list_sending_profiles])))))))))"

text \<open>\<^verbatim>\<open>_enforce_safety\<close>: returns, or raises \<^verbatim>\<open>ConfigError\<close>.\<close>

definition enforce_safety :: "app_config \<Rightarrow> args \<Rightarrow> config_error + unit" where
  "enforce_safety config a =
     (if arg_report_only a then Inr ()
      else if arg_dry_run a \<or> cfg_dry_run config then Inr ()
      else if \<not> allow_live_send config then
        Inl (ConfigError ''allow_live_send is false. Refusing to send awareness emails.'')
      else if arg_confirm a \<noteq> CONFIRM_PHRASE then
        Inl (ConfigError
          ''Missing --confirm phrase. Use --confirm I-UNDERSTAND-THIS-IS-AWARENESS to proceed.'')
      else Inr ())"

text \<open>
  One pass through the body of the polling loop after a fetch that succeeded: the fetch,
  the report and, when \<^verbatim>\<open>--csv-out\<close> is given, the export and its message.
\<close>

definition report_actions :: "app_config \<Rightarrow> args \<Rightarrow> int \<Rightarrow> campaign \<Rightarrow> action list" where
  "report_actions config a cid c =
     [Call_get_campaign cid,
      Print_report c (compute_metrics c (rc_unique_opens_only (reporting config))
                                        (rc_unique_clicks_only (reporting config)))]
     @ (if truthy (arg_csv_out a)
        then [Call_export_csv (build_recipient_rows c) (py_str (arg_csv_out a)),
              Stdout (''CSV export updated: '' @ py_str (arg_csv_out a))]
        else [])"

definition report_files :: "args \<Rightarrow> campaign \<Rightarrow> filesystem \<Rightarrow> filesystem" where
  "report_files a c fs =
     (if truthy (arg_csv_out a) then export_csv (build_recipient_rows c) (py_str (arg_csv_out a)) fs
      else fs)"

text \<open>
  The loop \<^verbatim>\<open>while True\<close> of the report-only mode.  Each turn takes the answer of the
  next fetch; \<open>tr\<close> and \<open>fs\<close> are what was done and written so far.
\<close>

fun poll_loop ::
  "app_config \<Rightarrow> args \<Rightarrow> int \<Rightarrow> int \<Rightarrow> int \<Rightarrow> (gophish_error + campaign) list \<Rightarrow>
   action list \<Rightarrow> filesystem \<Rightarrow> outcome" where
  "poll_loop config a cid poll_interval remaining_polls [] tr fs =
     \<lparr> out_status = Polling, out_trace = tr, out_files = fs \<rparr>"
| "poll_loop config a cid poll_interval remaining_polls (Inl (GophishError exc) # script) tr fs =
     \<lparr> out_status = Returned 1,
       out_trace = tr @ [Call_get_campaign cid, Stderr (''Failed to fetch campaign: '' @ exc)],
       out_files = fs \<rparr>"
| "poll_loop config a cid poll_interval remaining_polls (Inr c # script) tr fs =
     (let tr' = tr @ report_actions config a cid c;
          fs' = report_files a c fs
      in if poll_interval = 0 then \<lparr> out_status = Returned 0, out_trace = tr', out_files = fs' \<rparr>
         else if remaining_polls = 0 then
           (if camp_status c = Some ''Completed''
            then \<lparr> out_status = Returned 0, out_trace = tr', out_files = fs' \<rparr>
            else poll_loop config a cid poll_interval remaining_polls script
                   (tr' @ [Sleep poll_interval]) fs')
         else if remaining_polls - 1 \<le> 0
           then \<lparr> out_status = Returned 0, out_trace = tr', out_files = fs' \<rparr>
         else poll_loop config a cid poll_interval (remaining_polls - 1) script
                (tr' @ [Sleep poll_interval]) fs')"

text \<open>The report poller: the two parameters of the loop, then the loop.\<close>

definition report_poller ::
  "app_config \<Rightarrow> args \<Rightarrow> int \<Rightarrow> (gophish_error + campaign) list \<Rightarrow> filesystem \<Rightarrow> outcome" where
  "report_poller config a cid script fs =
     (let poll_interval = max (arg_poll_interval a) 0;
          remaining_polls = (if poll_interval \<noteq> 0 then arg_poll_count a else 1)
      in poll_loop config a cid poll_interval remaining_polls script [] fs)"

definition stop :: "int \<Rightarrow> action list \<Rightarrow> filesystem \<Rightarrow> outcome" where
  "stop code tr fs = \<lparr> out_status = Returned code, out_trace = tr, out_files = fs \<rparr>"

text \<open>\<^verbatim>\<open>print(f"Campaign created with ID: {campaign_id}")\<close>.\<close>

definition created_message :: "created \<Rightarrow> string" where
  "created_message cr =
     ''Campaign created with ID: ''
     @ (case created_id cr of None \<Rightarrow> ''None'' | Some i \<Rightarrow> str_int i)"

text \<open>\<^verbatim>\<open>run\<close>, after the arguments are parsed.\<close>

definition run :: "args \<Rightarrow> world \<Rightarrow> outcome" where
  "run a w =
     (case w_config w of
        Inl (ConfigError exc) \<Rightarrow> stop 1 [Stderr (''Config error: '' @ exc)] (w_files w)
      | Inr config \<Rightarrow>
     (case enforce_safety config a of
        Inl (ConfigError exc) \<Rightarrow> stop 1 [Stderr (''Safety check failed: '' @ exc)] (w_files w)
      | Inr _ \<Rightarrow>
          if arg_report_only a then
            (case arg_campaign_id a of
               None \<Rightarrow>
                 stop 1 [Stderr ''--campaign-id is required in report-only mode''] (w_files w)
             | Some cid \<Rightarrow>
                 if cid = 0 then
                   stop 1 [Stderr ''--campaign-id is required in report-only mode''] (w_files w)
                 else report_poller config a cid (w_fetches w) (w_files w))
          else
            (case build_campaign_payload config w of
               (Inl (GophishError exc), tr) \<Rightarrow>
                 stop 1 (tr @ [Stderr (''Failed to resolve campaign resources: '' @ exc)]) (w_files w)
             | (Inr pl, tr) \<Rightarrow>
                 if arg_dry_run a \<or> cfg_dry_run config then
                   stop 0 (tr @ [Print_plan pl]) (w_files w)
                 else
                   (case w_create w of
                      Inl (GophishError exc) \<Rightarrow>
                        stop 1 (tr @ [Call_create_campaign pl,
                                      Stderr (''Failed to create campaign: '' @ exc)]) (w_files w)
                    | Inr cr \<Rightarrow>
                        stop 0 (tr @ [Call_create_campaign pl,
                                      Stdout (created_message cr),
                                      Stdout ''Use --report-only --campaign-id to fetch click metrics.''])
                          (w_files w)))))"

section \<open>Notions of the specification and sample payloads\<close>

text \<open>All events of a campaign: the events of every result entry, in order.\<close>

definition campaign_events :: "campaign \<Rightarrow> event list" where
  "campaign_events c = concat (map (\<lambda>r. get_or (res_events r) []) (get_or (camp_results c) []))"

definition nonempty_emails_of_type :: "event list \<Rightarrow> string \<Rightarrow> string set" where
  "nonempty_emails_of_type events event_type =
     {a. a \<noteq> [] \<and> (\<exists>e \<in> set events. ev_type e = Some event_type \<and> ev_email e = Some a)}"

definition occurrences_of_type :: "event list \<Rightarrow> string \<Rightarrow> nat" where
  "occurrences_of_type events event_type = length (filter (\<lambda>e. ev_type e = Some event_type) events)"

text \<open>
  Every event of the given type that carries a non-empty email carries the email of one
  of the result entries.
\<close>

definition emails_of_recipients :: "campaign \<Rightarrow> string \<Rightarrow> bool" where
  "emails_of_recipients c event_type =
     list_all (\<lambda>e. ev_type e = Some event_type \<and> truthy (ev_email e) \<longrightarrow>
                   ev_email e \<in> set (map res_email (get_or (camp_results c) [])))
       (campaign_events c)"

definition mk_event :: "string \<Rightarrow> string \<Rightarrow> string \<Rightarrow> event" where
  "mk_event t e tm = \<lparr> ev_type = Some t, ev_email = Some e, ev_time = Some tm \<rparr>"

text \<open>The payload of the specification's example: one result, the same open twice.\<close>

definition two_opens :: campaign where
  "two_opens = \<lparr> camp_name = None, camp_status = None, camp_results = Some
     [\<lparr> res_email = None, res_status = None, res_events = Some
        [\<lparr> ev_type = Some ''Opened Email'', ev_email = Some ''a@x'', ev_time = None \<rparr>,
         \<lparr> ev_type = Some ''Opened Email'', ev_email = Some ''a@x'', ev_time = None \<rparr>] \<rparr>] \<rparr>"

text \<open>
  Three recipients: one opens twice and clicks, one has an open without an email and one
  with, one has no events key.
\<close>

definition sample_campaign :: campaign where
  "sample_campaign = \<lparr> camp_name = Some ''Q3 awareness'', camp_status = Some ''In progress'',
     camp_results = Some
       [\<lparr> res_email = Some ''a@x'', res_status = Some ''Clicked Link'', res_events = Some
          [mk_event ''Email Sent'' ''a@x'' ''t0'',
           mk_event ''Opened Email'' ''a@x'' ''t1'',
           mk_event ''Opened Email'' ''a@x'' ''t2'',
           mk_event ''Clicked Link'' ''a@x'' ''t3''] \<rparr>,
        \<lparr> res_email = Some ''b@x'', res_status = Some ''Email Opened'', res_events = Some
          [mk_event ''Email Sent'' ''b@x'' ''t0'',
           \<lparr> ev_type = Some ''Opened Email'', ev_email = Some '''', ev_time = Some ''t4'' \<rparr>,
           mk_event ''Opened Email'' ''b@x'' ''t5''] \<rparr>,
        \<lparr> res_email = Some ''c@x'', res_status = Some ''Email Sent'', res_events = None \<rparr>] \<rparr>"

definition empty_campaign :: campaign where
  "empty_campaign = \<lparr> camp_name = None, camp_status = None, camp_results = None \<rparr>"

definition foreign_emails :: campaign where
  "foreign_emails = \<lparr> camp_name = None, camp_status = None, camp_results = Some
     [\<lparr> res_email = Some ''a@x'', res_status = None, res_events = Some
        [mk_event ''Opened Email'' ''a@x'' ''t1'',
         mk_event ''Opened Email'' ''b@x'' ''t2''] \<rparr>] \<rparr>"

text \<open>An event has a time value when its time is present and not empty.\<close>

definition has_time :: "event \<Rightarrow> bool" where
  "has_time e = (case ev_time e of None \<Rightarrow> False | Some t \<Rightarrow> t \<noteq> [])"

text \<open>
  The first timestamp among the events of a type that have a time value, or the empty
  string when there is none.
\<close>

definition first_time_of_type :: "event list \<Rightarrow> string \<Rightarrow> string" where
  "first_time_of_type events event_type =
     (case find (\<lambda>e. ev_type e = Some event_type \<and> has_time e) events of
        None \<Rightarrow> []
      | Some e \<Rightarrow> the (ev_time e))"

definition timed_events_of_type :: "event list \<Rightarrow> string \<Rightarrow> nat" where
  "timed_events_of_type events event_type =
     length (filter (\<lambda>e. ev_type e = Some event_type \<and> has_time e) events)"

definition result_events :: "result \<Rightarrow> event list" where
  "result_events r = get_or (res_events r) []"





text \<open>A row whose values hold the delimiter, quotes and a line break.\<close>

definition quoted_row :: recipient_row where
  "quoted_row =
     \<lparr> campaign_name = ''Q3, wave 2'', campaign_status = ''In progress'',
       recipient_email = ''a@x'', recipient_status = ''say '' @ [DQUOTE] @ ''hi'' @ [DQUOTE],
       open_count = 12, click_count = 0,
       first_open_time = ''line1'' @ [CR, LF] @ ''line2'', first_click_time = [],
       last_event_type = ''Opened Email'', last_event_time = ''t9'' \<rparr>"

section \<open>Notions for the poller and the command line flow\<close>

text \<open>
  The trace of successive complete cycles over the campaigns fetched, with a sleep of
  \<open>i\<close> seconds between two cycles and none after the last.
\<close>

fun cycles_trace :: "app_config \<Rightarrow> args \<Rightarrow> int \<Rightarrow> int \<Rightarrow> campaign list \<Rightarrow> action list" where
  "cycles_trace config a cid i [] = []"
| "cycles_trace config a cid i [c] = report_actions config a cid c"
| "cycles_trace config a cid i (c # cs) =
     report_actions config a cid c @ [Sleep i] @ cycles_trace config a cid i cs"

text \<open>The files after the exports of successive cycles.\<close>

definition files_after :: "args \<Rightarrow> campaign list \<Rightarrow> filesystem \<Rightarrow> filesystem" where
  "files_after a cs fs = foldl (\<lambda>fs' c. report_files a c fs') fs cs"

definition is_fetch :: "action \<Rightarrow> bool" where
  "is_fetch act = (case act of Call_get_campaign _ \<Rightarrow> True | _ \<Rightarrow> False)"

definition is_sleep :: "action \<Rightarrow> bool" where
  "is_sleep act = (case act of Sleep _ \<Rightarrow> True | _ \<Rightarrow> False)"

definition is_report :: "action \<Rightarrow> bool" where
  "is_report act = (case act of Print_report _ _ \<Rightarrow> True | _ \<Rightarrow> False)"

text \<open>The trace of cycles none of which was the last: a sleep follows each.\<close>

definition waiting_trace :: "app_config \<Rightarrow> args \<Rightarrow> int \<Rightarrow> int \<Rightarrow> campaign list \<Rightarrow> action list" where
  "waiting_trace config a cid i cs =
     concat (map (\<lambda>c. report_actions config a cid c @ [Sleep i]) cs)"



definition sample_config :: app_config where
  "sample_config =
     \<lparr> allow_live_send = False, cfg_dry_run = True, base_url = ''https://gophish.example:3333'',
       api_key = ''secret'', verify_tls = True,
       cfg_campaign = \<lparr> cc_name = ''Q3 awareness'', cc_group_name = ''Staff'',
                        cc_template_name = ''Invoice'', cc_page_name = ''Landing'',
                        cc_sending_profile_name = ''Relay'', cc_url = ''https://train.example'',
                        cc_launch_date = None \<rparr>,
       reporting = \<lparr> rc_unique_clicks_only = True, rc_unique_opens_only = True \<rparr> \<rparr>"

text \<open>Report-only arguments for campaign 7 with a CSV file, by interval and count.\<close>

definition poll_args :: "int \<Rightarrow> int \<Rightarrow> args" where
  "poll_args i n =
     \<lparr> arg_config = ''config/sample_config.yaml'', arg_dry_run = False, arg_report_only = True,
       arg_campaign_id = Some 7, arg_csv_out = Some ''report.csv'', arg_poll_interval = i,
       arg_poll_count = n, arg_confirm = [] \<rparr>"

definition completed_campaign :: campaign where
  "completed_campaign = sample_campaign\<lparr> camp_status := Some ''Completed'' \<rparr>"

text \<open>A server on which every resource of the sample configuration exists.\<close>

definition live_config :: app_config where
  "live_config = sample_config\<lparr> allow_live_send := True, cfg_dry_run := False \<rparr>"

definition sample_world :: "app_config \<Rightarrow> world" where
  "sample_world config =
     \<lparr> w_config = Inr config,
       w_groups = Inr [\<lparr> gr_id = 1, gr_name = ''Staff'' \<rparr>],
       w_templates = Inr [\<lparr> gr_id = 2, gr_name = ''Other'' \<rparr>, \<lparr> gr_id = 3, gr_name = ''Invoice'' \<rparr>],
       w_pages = Inr [\<lparr> gr_id = 4, gr_name = ''Landing'' \<rparr>],
       w_sending_profiles = Inr [\<lparr> gr_id = 5, gr_name = ''Relay'' \<rparr>],
       w_create = Inr \<lparr> created_id = Some 7 \<rparr>,
       w_fetches = [Inr sample_campaign],
       w_files = Map.empty \<rparr>"

definition send_args :: "bool \<Rightarrow> string \<Rightarrow> args" where
  "send_args dry confirm =
     \<lparr> arg_config = ''config/sample_config.yaml'', arg_dry_run = dry, arg_report_only = False,
       arg_campaign_id = None, arg_csv_out = None, arg_poll_interval = 0,
       arg_poll_count = 1, arg_confirm = confirm \<rparr>"


section \<open>Properties of the metrics\<close>

lemma extend_all_concat:
  "extend_all acc results = acc @ concat (map (\<lambda>r. get_or (res_events r) []) results)"
  by (induction results arbitrary: acc) simp_all

lemma unique_ids_spec: "unique_ids evs T = nonempty_emails_of_type evs T"
proof (rule set_eqI)
  fix a
  show "a \<in> unique_ids evs T \<longleftrightarrow> a \<in> nonempty_emails_of_type evs T"
  proof
    assume "a \<in> unique_ids evs T"
    then obtain e where e: "e \<in> set evs" "ev_type e = Some T" "truthy (ev_email e)"
        and a: "a = py_str (ev_email e)"
      by (auto simp: unique_ids_def)
    from e(3) obtain s where "ev_email e = Some s" "s \<noteq> []"
      by (auto simp: truthy_def split: option.splits)
    with e a show "a \<in> nonempty_emails_of_type evs T"
      by (auto simp: nonempty_emails_of_type_def py_str_def)
  next
    assume "a \<in> nonempty_emails_of_type evs T"
    then obtain e where e: "e \<in> set evs" "ev_type e = Some T" "ev_email e = Some a" "a \<noteq> []"
      by (auto simp: nonempty_emails_of_type_def)
    then have "truthy (ev_email e)" "py_str (ev_email e) = a"
      by (simp_all add: truthy_def py_str_def)
    with e show "a \<in> unique_ids evs T"
      unfolding unique_ids_def by force
  qed
qed

lemma sum_type_spec: "sum_type evs T = int (occurrences_of_type evs T)"
  by (induction evs) (simp_all add: sum_type_def occurrences_of_type_def)

lemma extend_all_events: "extend_all [] (get_or (camp_results c) []) = campaign_events c"
  by (simp add: extend_all_concat campaign_events_def)

lemma card_unique_ids_le: "card (unique_ids evs T) \<le> occurrences_of_type evs T"
proof -
  have "card (unique_ids evs T) \<le> length (map (\<lambda>event. py_str (ev_email event))
            (filter (\<lambda>event. ev_type event = Some T \<and> truthy (ev_email event)) evs))"
    unfolding unique_ids_def by (rule card_length)
  also have "\<dots> \<le> occurrences_of_type evs T"
    by (induction evs) (simp_all add: occurrences_of_type_def)
  finally show ?thesis .
qed

lemma opened_unfold:
  "opened (compute_metrics c uo uc) =
     (if uo then int (card (unique_ids (campaign_events c) ''Opened Email''))
      else sum_type (campaign_events c) ''Opened Email'')"
  by (simp add: compute_metrics_def Let_def extend_all_events)

lemma clicked_unfold:
  "clicked (compute_metrics c uo uc) =
     (if uc then int (card (unique_ids (campaign_events c) ''Clicked Link''))
      else sum_type (campaign_events c) ''Clicked Link'')"
  by (simp add: compute_metrics_def Let_def extend_all_events)

lemma total_unfold:
  "total_recipients (compute_metrics c uo uc) = int (length (get_or (camp_results c) []))"
  by (simp add: compute_metrics_def Let_def)

lemma open_rate_unfold:
  "open_rate (compute_metrics c uo uc) =
     (if total_recipients (compute_metrics c uo uc) \<noteq> 0
      then real_of_int (opened (compute_metrics c uo uc))
           / real_of_int (total_recipients (compute_metrics c uo uc)) * 100
      else 0)"
  by (simp add: compute_metrics_def Let_def)

lemma click_rate_unfold:
  "click_rate (compute_metrics c uo uc) =
     (if total_recipients (compute_metrics c uo uc) \<noteq> 0
      then real_of_int (clicked (compute_metrics c uo uc))
           / real_of_int (total_recipients (compute_metrics c uo uc)) * 100
      else 0)"
  by (simp add: compute_metrics_def Let_def)

lemma two_opens_events:
  "campaign_events two_opens =
     [\<lparr> ev_type = Some ''Opened Email'', ev_email = Some ''a@x'', ev_time = None \<rparr>,
      \<lparr> ev_type = Some ''Opened Email'', ev_email = Some ''a@x'', ev_time = None \<rparr>]"
  by (simp add: campaign_events_def two_opens_def get_or_def)

lemma two_opens_unique: "card (unique_ids (campaign_events two_opens) ''Opened Email'') = 1"
  by code_simp

lemma two_opens_raw: "sum_type (campaign_events two_opens) ''Opened Email'' = 2"
  by code_simp

text \<open>
  Claim C1.  The opened count of \<open>compute_metrics\<close> is, in unique mode, the number of
  distinct non-empty email addresses among the events of type "Opened Email" (an event
  whose email is absent or empty adds nothing), and in raw mode the number of events of
  that type, duplicates included; the clicked count follows the same rule with
  "Clicked Link" and its own flag.  For the payload with one result holding the same open
  of a@x twice, opened is 1 in unique mode and 2 in raw mode.
\<close>

theorem C1_opened_clicked_counts:
  "opened (compute_metrics c unique_opens_only unique_clicks_only) =
     (if unique_opens_only
      then int (card (nonempty_emails_of_type (campaign_events c) ''Opened Email''))
      else int (occurrences_of_type (campaign_events c) ''Opened Email''))
   \<and> clicked (compute_metrics c unique_opens_only unique_clicks_only) =
     (if unique_clicks_only
      then int (card (nonempty_emails_of_type (campaign_events c) ''Clicked Link''))
      else int (occurrences_of_type (campaign_events c) ''Clicked Link''))
   \<and> opened (compute_metrics two_opens True unique_clicks_only) = 1
   \<and> opened (compute_metrics two_opens False unique_clicks_only) = 2"
  by (simp add: opened_unfold clicked_unfold unique_ids_spec [symmetric] sum_type_spec [symmetric]
        two_opens_unique two_opens_raw)

lemma sample_unique_opened: "card (unique_ids (campaign_events sample_campaign) ''Opened Email'') = 2"
  by code_simp
lemma sample_raw_opened: "sum_type (campaign_events sample_campaign) ''Opened Email'' = 4"
  by code_simp
lemma sample_unique_clicked: "card (unique_ids (campaign_events sample_campaign) ''Clicked Link'') = 1"
  by code_simp
lemma sample_raw_clicked: "sum_type (campaign_events sample_campaign) ''Clicked Link'' = 1"
  by code_simp

theorem C1_opened_clicked_counts_witness:
  "opened (compute_metrics sample_campaign True False) = 2
   \<and> card (nonempty_emails_of_type (campaign_events sample_campaign) ''Opened Email'') = 2
   \<and> clicked (compute_metrics sample_campaign True False) = 1
   \<and> occurrences_of_type (campaign_events sample_campaign) ''Clicked Link'' = 1
   \<and> opened (compute_metrics two_opens True False) = 1
   \<and> opened (compute_metrics two_opens False False) = 2"
  using C1_opened_clicked_counts [of sample_campaign True False]
  by (simp add: opened_unfold clicked_unfold sample_unique_opened sample_raw_clicked)


text \<open>
  Claim C2.  \<open>total_recipients\<close> is the number of result entries (not of events); when
  it is not zero the rates are opened / total_recipients * 100 and
  clicked / total_recipients * 100, and when it is zero both rates are exactly 0.
\<close>

theorem C2_total_and_rates:
  "total_recipients (compute_metrics c uo uc) = int (length (get_or (camp_results c) []))
   \<and> (total_recipients (compute_metrics c uo uc) \<noteq> 0 \<longrightarrow>
        open_rate (compute_metrics c uo uc) =
          real_of_int (opened (compute_metrics c uo uc))
            / real_of_int (total_recipients (compute_metrics c uo uc)) * 100
        \<and> click_rate (compute_metrics c uo uc) =
          real_of_int (clicked (compute_metrics c uo uc))
            / real_of_int (total_recipients (compute_metrics c uo uc)) * 100)
   \<and> (total_recipients (compute_metrics c uo uc) = 0 \<longrightarrow>
        open_rate (compute_metrics c uo uc) = 0 \<and> click_rate (compute_metrics c uo uc) = 0)"
  by (simp add: open_rate_unfold click_rate_unfold total_unfold)

lemma sample_results_length: "length (get_or (camp_results sample_campaign) []) = 3"
  by (simp add: sample_campaign_def get_or_def)

lemma sample_events_length: "length (campaign_events sample_campaign) = 7"
  by (simp add: sample_campaign_def campaign_events_def get_or_def)

lemma empty_results: "get_or (camp_results empty_campaign) [] = []"
  by (simp add: empty_campaign_def get_or_def)

theorem C2_total_and_rates_witness:
  "total_recipients (compute_metrics sample_campaign True True) = 3
   \<and> length (campaign_events sample_campaign) = 7
   \<and> open_rate (compute_metrics sample_campaign True True) = 200 / 3
   \<and> click_rate (compute_metrics sample_campaign True True) = 100 / 3
   \<and> total_recipients (compute_metrics empty_campaign False False) = 0
   \<and> open_rate (compute_metrics empty_campaign False False) = 0
   \<and> click_rate (compute_metrics empty_campaign False False) = 0"
  using C2_total_and_rates [of sample_campaign True True]
        C2_total_and_rates [of empty_campaign False False]
  by (simp add: sample_results_length sample_events_length empty_results
        opened_unfold clicked_unfold sample_unique_opened sample_unique_clicked)

lemma two_opens_results_length: "length (get_or (camp_results two_opens) []) = 1"
  by (simp add: two_opens_def get_or_def)

lemma foreign_results_length: "length (get_or (camp_results foreign_emails) []) = 1"
  by (simp add: foreign_emails_def get_or_def)

lemma foreign_unique: "card (unique_ids (campaign_events foreign_emails) ''Opened Email'') = 2"
  by code_simp

text \<open>
  Claim C3 as stated fails: rates above 100.  In raw mode one recipient who opens twice
  gives an open rate of 200; in unique mode one result entry whose events carry two
  different emails gives 200 as well.
\<close>

theorem C3_rates_in_range_counterexample:
  "0 < total_recipients (compute_metrics two_opens False False)
   \<and> open_rate (compute_metrics two_opens False False) = 200
   \<and> \<not> open_rate (compute_metrics two_opens False False) \<le> 100
   \<and> 0 < total_recipients (compute_metrics foreign_emails True True)
   \<and> open_rate (compute_metrics foreign_emails True True) = 200
   \<and> \<not> open_rate (compute_metrics foreign_emails True True) \<le> 100"
  by (simp add: open_rate_unfold total_unfold opened_unfold two_opens_results_length
        two_opens_raw foreign_results_length foreign_unique)

lemma card_unique_ids_recipients:
  assumes "emails_of_recipients c T"
  shows "card (unique_ids (campaign_events c) T) \<le> length (get_or (camp_results c) [])"
proof -
  let ?rs = "get_or (camp_results c) []"
  have "unique_ids (campaign_events c) T \<subseteq> (\<lambda>r. py_str (res_email r)) ` set ?rs"
  proof
    fix a
    assume "a \<in> unique_ids (campaign_events c) T"
    then obtain e where e: "e \<in> set (campaign_events c)" "ev_type e = Some T"
        "truthy (ev_email e)" and a: "a = py_str (ev_email e)"
      by (auto simp: unique_ids_def)
    from assms e have "ev_email e \<in> set (map res_email ?rs)"
      by (auto simp: emails_of_recipients_def list_all_iff)
    then obtain r where "r \<in> set ?rs" "res_email r = ev_email e"
      by auto
    with a show "a \<in> (\<lambda>r. py_str (res_email r)) ` set ?rs"
      by force
  qed
  then have "card (unique_ids (campaign_events c) T) \<le> card ((\<lambda>r. py_str (res_email r)) ` set ?rs)"
    by (intro card_mono) simp_all
  also have "\<dots> \<le> card (set ?rs)"
    by (rule card_image_le) simp
  also have "\<dots> \<le> length ?rs"
    by (rule card_length)
  finally show ?thesis .
qed

lemma opened_nonneg: "0 \<le> opened (compute_metrics c uo uc)"
  by (simp add: opened_unfold sum_type_spec)

lemma clicked_nonneg: "0 \<le> clicked (compute_metrics c uo uc)"
  by (simp add: clicked_unfold sum_type_spec)

lemma rate_bounds:
  fixes k n :: int
  assumes "0 < n" "0 \<le> k"
  shows "0 \<le> real_of_int k / real_of_int n * 100"
    and "real_of_int k / real_of_int n * 100 \<le> 100 \<longleftrightarrow> k \<le> n"
proof -
  from assms show "0 \<le> real_of_int k / real_of_int n * 100"
    by simp
  from assms have "real_of_int k / real_of_int n * 100 \<le> 100 \<longleftrightarrow> real_of_int k * 100 \<le> 100 * real_of_int n"
    by (simp add: field_simps)
  also have "\<dots> \<longleftrightarrow> real_of_int k \<le> real_of_int n"
    by simp
  also have "\<dots> \<longleftrightarrow> k \<le> n"
    by (rule of_int_le_iff)
  finally show "real_of_int k / real_of_int n * 100 \<le> 100 \<longleftrightarrow> k \<le> n" .
qed

text \<open>
  Claim C3, amended.  With total_recipients > 0 both rates are at least 0, and a rate is
  at most 100 exactly when its count does not exceed total_recipients; that is the case
  in unique mode whenever every event of the type with a non-empty email carries the
  email of a result entry.
\<close>

theorem C3_rates_in_range_amended:
  assumes "0 < total_recipients (compute_metrics c uo uc)"
  shows "0 \<le> open_rate (compute_metrics c uo uc)
       \<and> 0 \<le> click_rate (compute_metrics c uo uc)
       \<and> (open_rate (compute_metrics c uo uc) \<le> 100 \<longleftrightarrow>
            opened (compute_metrics c uo uc) \<le> total_recipients (compute_metrics c uo uc))
       \<and> (click_rate (compute_metrics c uo uc) \<le> 100 \<longleftrightarrow>
            clicked (compute_metrics c uo uc) \<le> total_recipients (compute_metrics c uo uc))
       \<and> (uo \<and> emails_of_recipients c ''Opened Email'' \<longrightarrow>
            open_rate (compute_metrics c uo uc) \<le> 100)
       \<and> (uc \<and> emails_of_recipients c ''Clicked Link'' \<longrightarrow>
            click_rate (compute_metrics c uo uc) \<le> 100)"
proof -
  let ?m = "compute_metrics c uo uc"
  from assms have ne: "total_recipients ?m \<noteq> 0" by simp
  have o: "open_rate ?m = real_of_int (opened ?m) / real_of_int (total_recipients ?m) * 100"
    using ne by (simp add: open_rate_unfold)
  have k: "click_rate ?m = real_of_int (clicked ?m) / real_of_int (total_recipients ?m) * 100"
    using ne by (simp add: click_rate_unfold)
  have o1: "0 \<le> open_rate ?m" and o2: "open_rate ?m \<le> 100 \<longleftrightarrow> opened ?m \<le> total_recipients ?m"
    unfolding o using rate_bounds [OF assms opened_nonneg] by simp_all
  have k1: "0 \<le> click_rate ?m" and k2: "click_rate ?m \<le> 100 \<longleftrightarrow> clicked ?m \<le> total_recipients ?m"
    unfolding k using rate_bounds [OF assms clicked_nonneg] by simp_all
  have o3: "open_rate ?m \<le> 100" if "uo" "emails_of_recipients c ''Opened Email''"
  proof -
    from that have "opened ?m \<le> total_recipients ?m"
      using card_unique_ids_recipients [of c "''Opened Email''"]
      by (simp add: opened_unfold total_unfold)
    with o2 show ?thesis by simp
  qed
  have k3: "click_rate ?m \<le> 100" if "uc" "emails_of_recipients c ''Clicked Link''"
  proof -
    from that have "clicked ?m \<le> total_recipients ?m"
      using card_unique_ids_recipients [of c "''Clicked Link''"]
      by (simp add: clicked_unfold total_unfold)
    with k2 show ?thesis by simp
  qed
  from o1 o2 o3 k1 k2 k3 show ?thesis by blast
qed

lemma sample_recipients_opened: "emails_of_recipients sample_campaign ''Opened Email''"
  by code_simp

lemma sample_recipients_clicked: "emails_of_recipients sample_campaign ''Clicked Link''"
  by code_simp

theorem C3_rates_in_range_amended_witness:
  "0 < total_recipients (compute_metrics sample_campaign True True)
   \<and> emails_of_recipients sample_campaign ''Opened Email''
   \<and> emails_of_recipients sample_campaign ''Clicked Link''
   \<and> 0 \<le> open_rate (compute_metrics sample_campaign True True)
   \<and> open_rate (compute_metrics sample_campaign True True) \<le> 100
   \<and> 0 \<le> click_rate (compute_metrics sample_campaign True True)
   \<and> click_rate (compute_metrics sample_campaign True True) \<le> 100"
proof -
  have pos: "0 < total_recipients (compute_metrics sample_campaign True True)"
    by (simp add: total_unfold sample_results_length)
  from C3_rates_in_range_amended [OF pos] pos
    sample_recipients_opened sample_recipients_clicked
  show ?thesis by blast
qed

text \<open>
  Claim C4.  For a fixed payload the unique-mode opened count is at most the raw-mode
  opened count, likewise for clicked, and each count, in either mode, is at most the
  number of events of its type.
\<close>

theorem C4_unique_le_raw:
  "opened (compute_metrics c True uc) \<le> opened (compute_metrics c False uc')
   \<and> clicked (compute_metrics c uo True) \<le> clicked (compute_metrics c uo' False)
   \<and> opened (compute_metrics c uo uc)
        \<le> int (occurrences_of_type (campaign_events c) ''Opened Email'')
   \<and> clicked (compute_metrics c uo uc)
        \<le> int (occurrences_of_type (campaign_events c) ''Clicked Link'')"
  using card_unique_ids_le [of "campaign_events c" "''Opened Email''"]
        card_unique_ids_le [of "campaign_events c" "''Clicked Link''"]
  by (simp add: opened_unfold clicked_unfold sum_type_spec)

lemma sample_occurrences_opened:
  "occurrences_of_type (campaign_events sample_campaign) ''Opened Email'' = 4"
  by code_simp

theorem C4_unique_le_raw_witness:
  "opened (compute_metrics sample_campaign True True) = 2
   \<and> opened (compute_metrics sample_campaign False True) = 4
   \<and> clicked (compute_metrics sample_campaign True True) = 1
   \<and> clicked (compute_metrics sample_campaign True False) = 1
   \<and> occurrences_of_type (campaign_events sample_campaign) ''Opened Email'' = 4
   \<and> opened (compute_metrics sample_campaign True True)
        \<le> opened (compute_metrics sample_campaign False True)"
  using C4_unique_le_raw [of sample_campaign True True True True]
  by (simp add: opened_unfold clicked_unfold sample_unique_opened sample_raw_opened
        sample_unique_clicked sample_raw_clicked sample_occurrences_opened)

section \<open>Properties of the per-recipient rows\<close>

lemma append_rows_map:
  "append_rows name status rows results = rows @ map (recipient_row_of name status) results"
  by (induction results arbitrary: rows) simp_all

lemma build_recipient_rows_map:
  "build_recipient_rows c =
     map (recipient_row_of (get_or (camp_name c) ''<unknown>'') (get_or (camp_status c) ''<unknown>''))
       (get_or (camp_results c) [])"
  by (simp add: build_recipient_rows_def append_rows_map)

lemma truthy_has_time: "truthy (ev_time e) = has_time e"
  by (simp add: truthy_def has_time_def)

lemma extract_first:
  "(case extract_event_times evs T of [] \<Rightarrow> [] | t # _ \<Rightarrow> t) = first_time_of_type evs T"
proof (induction evs)
  case Nil
  show ?case by (simp add: extract_event_times_def first_time_of_type_def)
next
  case (Cons e evs)
  show ?case
  proof (cases "ev_type e = Some T \<and> has_time e")
    case True
    then obtain t where "ev_time e = Some t"
      by (auto simp: has_time_def split: option.splits)
    with True show ?thesis
      by (simp add: extract_event_times_def first_time_of_type_def truthy_has_time py_str_def)
  next
    case False
    with Cons show ?thesis
      by (auto simp: extract_event_times_def first_time_of_type_def truthy_has_time)
  qed
qed

lemma extract_length: "length (extract_event_times evs T) = timed_events_of_type evs T"
  by (simp add: extract_event_times_def timed_events_of_type_def truthy_has_time)

lemma row_first_open:
  "first_open_time (recipient_row_of n s r) = first_time_of_type (result_events r) ''Opened Email''"
  by (simp add: recipient_row_of_def Let_def extract_first result_events_def)

lemma row_first_click:
  "first_click_time (recipient_row_of n s r) = first_time_of_type (result_events r) ''Clicked Link''"
  by (simp add: recipient_row_of_def Let_def extract_first result_events_def)

lemma row_counts:
  "open_count (recipient_row_of n s r) = int (length (extract_event_times (result_events r) ''Opened Email''))"
  "click_count (recipient_row_of n s r) = int (length (extract_event_times (result_events r) ''Clicked Link''))"
  by (simp_all add: recipient_row_of_def Let_def result_events_def)

lemma row_last:
  "last_event_type (recipient_row_of n s r) =
     (if result_events r = [] then [] else get_or (ev_type (last (result_events r))) [])"
  "last_event_time (recipient_row_of n s r) =
     (if result_events r = [] then [] else get_or (ev_time (last (result_events r))) [])"
  by (simp_all add: recipient_row_of_def Let_def result_events_def no_event_def get_or_def)

text \<open>
  Claim C5.  \<open>build_recipient_rows\<close> gives one row per result entry, in order.  In each
  row, first_open_time (first_click_time) is the first timestamp among the result's
  "Opened Email" ("Clicked Link") events that have a time value, or the empty string when
  there is none; last_event_type and last_event_time come from the last element of the
  result's whole event list, or are empty when the list is empty; open_count and
  click_count are the lengths of the filtered timestamp lists, whatever the unique-mode
  flags (the function does not take them).  A result without events gives empty strings
  in the four timestamp and type fields and zero counts.
\<close>

theorem C5_recipient_rows:
  "length (build_recipient_rows c) = length (get_or (camp_results c) [])
   \<and> (\<forall>i < length (get_or (camp_results c) []).
        (let r = get_or (camp_results c) [] ! i;
             row = build_recipient_rows c ! i;
             events = result_events r
         in first_open_time row = first_time_of_type events ''Opened Email''
          \<and> first_click_time row = first_time_of_type events ''Clicked Link''
          \<and> last_event_type row = (if events = [] then [] else get_or (ev_type (last events)) [])
          \<and> last_event_time row = (if events = [] then [] else get_or (ev_time (last events)) [])
          \<and> open_count row = int (length (extract_event_times events ''Opened Email''))
          \<and> open_count row = int (timed_events_of_type events ''Opened Email'')
          \<and> click_count row = int (length (extract_event_times events ''Clicked Link''))
          \<and> click_count row = int (timed_events_of_type events ''Clicked Link'')
          \<and> (events = [] \<longrightarrow>
                first_open_time row = [] \<and> first_click_time row = []
              \<and> last_event_type row = [] \<and> last_event_time row = []
              \<and> open_count row = 0 \<and> click_count row = 0)))"
proof (intro conjI allI impI)
  show "length (build_recipient_rows c) = length (get_or (camp_results c) [])"
    by (simp add: build_recipient_rows_map)
next
  fix i
  assume i: "i < length (get_or (camp_results c) [])"
  let ?n = "get_or (camp_name c) ''<unknown>''" and ?s = "get_or (camp_status c) ''<unknown>''"
  let ?r = "get_or (camp_results c) [] ! i"
  have row: "build_recipient_rows c ! i = recipient_row_of ?n ?s ?r"
    using i by (simp add: build_recipient_rows_map)
  have empty: "first_time_of_type [] T = []" "extract_event_times [] T = []" for T
    by (simp_all add: first_time_of_type_def extract_event_times_def)
  show "let r = get_or (camp_results c) [] ! i;
             row = build_recipient_rows c ! i;
             events = result_events r
         in first_open_time row = first_time_of_type events ''Opened Email''
          \<and> first_click_time row = first_time_of_type events ''Clicked Link''
          \<and> last_event_type row = (if events = [] then [] else get_or (ev_type (last events)) [])
          \<and> last_event_time row = (if events = [] then [] else get_or (ev_time (last events)) [])
          \<and> open_count row = int (length (extract_event_times events ''Opened Email''))
          \<and> open_count row = int (timed_events_of_type events ''Opened Email'')
          \<and> click_count row = int (length (extract_event_times events ''Clicked Link''))
          \<and> click_count row = int (timed_events_of_type events ''Clicked Link'')
          \<and> (events = [] \<longrightarrow>
                first_open_time row = [] \<and> first_click_time row = []
              \<and> last_event_type row = [] \<and> last_event_time row = []
              \<and> open_count row = 0 \<and> click_count row = 0)"
    unfolding Let_def row
    by (simp add: row_first_open row_first_click row_counts row_last extract_length empty
          timed_events_of_type_def)
qed

lemma sample_rows:
  "build_recipient_rows sample_campaign =
    [\<lparr>campaign_name = ''Q3 awareness'', campaign_status = ''In progress'',
       recipient_email = ''a@x'', recipient_status = ''Clicked Link'',
       open_count = 2, click_count = 1, first_open_time = ''t1'',
       first_click_time = ''t3'', last_event_type = ''Clicked Link'',
       last_event_time = ''t3''\<rparr>,
     \<lparr>campaign_name = ''Q3 awareness'', campaign_status = ''In progress'',
       recipient_email = ''b@x'', recipient_status = ''Email Opened'',
       open_count = 2, click_count = 0, first_open_time = ''t4'',
       first_click_time = [], last_event_type = ''Opened Email'',
       last_event_time = ''t5''\<rparr>,
     \<lparr>campaign_name = ''Q3 awareness'', campaign_status = ''In progress'',
       recipient_email = ''c@x'', recipient_status = ''Email Sent'',
       open_count = 0, click_count = 0, first_open_time = [],
       first_click_time = [], last_event_type = [], last_event_time = []\<rparr>]"
  by code_simp

lemma sample_third_result:
  "result_events (get_or (camp_results sample_campaign) [] ! 2) = []"
  by code_simp

lemma sample_first_result:
  "first_time_of_type (result_events (get_or (camp_results sample_campaign) [] ! 0)) ''Opened Email'' = ''t1''"
  "timed_events_of_type (result_events (get_or (camp_results sample_campaign) [] ! 0)) ''Opened Email'' = 2"
  by code_simp+

theorem C5_recipient_rows_witness:
  "length (get_or (camp_results sample_campaign) []) = 3
   \<and> length (build_recipient_rows sample_campaign) = 3
   \<and> first_time_of_type (result_events (get_or (camp_results sample_campaign) [] ! 0)) ''Opened Email'' = ''t1''
   \<and> first_open_time (build_recipient_rows sample_campaign ! 0) = ''t1''
   \<and> open_count (build_recipient_rows sample_campaign ! 0) = 2
   \<and> last_event_type (build_recipient_rows sample_campaign ! 0) = ''Clicked Link''
   \<and> result_events (get_or (camp_results sample_campaign) [] ! 2) = []
   \<and> first_open_time (build_recipient_rows sample_campaign ! 2) = []
   \<and> first_click_time (build_recipient_rows sample_campaign ! 2) = []
   \<and> last_event_type (build_recipient_rows sample_campaign ! 2) = []
   \<and> last_event_time (build_recipient_rows sample_campaign ! 2) = []
   \<and> open_count (build_recipient_rows sample_campaign ! 2) = 0
   \<and> click_count (build_recipient_rows sample_campaign ! 2) = 0"
  using C5_recipient_rows [of sample_campaign]
  by (simp add: sample_rows sample_third_result sample_first_result sample_results_length)

section \<open>Properties of the CSV export\<close>







lemma reader_eqI:
  "rd_state r = a \<Longrightarrow> rd_field r = b \<Longrightarrow> rd_fields r = c \<Longrightarrow> rd_records r = d
   \<Longrightarrow> rd_line r = e
   \<Longrightarrow> (r :: reader) = \<lparr> rd_state = a, rd_field = b, rd_fields = c, rd_records = d, rd_line = e \<rparr>"
  by (cases r) simp


















lemma quoted_row_line:
  "writerow (row_values quoted_row) =
     [DQUOTE] @ ''Q3, wave 2'' @ [DQUOTE] @ '',In progress,a@x,''
     @ [DQUOTE] @ ''say '' @ [DQUOTE, DQUOTE] @ ''hi'' @ [DQUOTE, DQUOTE, DQUOTE]
     @ '',12,0,'' @ [DQUOTE] @ ''line1'' @ [CR, LF] @ ''line2'' @ [DQUOTE]
     @ '',,Opened Email,t9'' @ [CR, LF]"
  by code_simp


section \<open>Properties of the report poller\<close>

lemma cycles_trace_Cons:
  "cs \<noteq> [] \<Longrightarrow> cycles_trace config a cid i (c # cs)
     = report_actions config a cid c @ [Sleep i] @ cycles_trace config a cid i cs"
  by (cases cs) simp_all

lemma cycles_trace_snoc:
  "cycles_trace config a cid i (pre @ [c])
     = concat (map (\<lambda>c'. report_actions config a cid c' @ [Sleep i]) pre)
       @ report_actions config a cid c"
  by (induction pre) (simp_all add: cycles_trace_Cons)

lemma report_actions_fetches: "length (filter is_fetch (report_actions config a cid c)) = 1"
  by (simp add: report_actions_def is_fetch_def)

lemma report_actions_sleeps: "filter is_sleep (report_actions config a cid c) = []"
  by (simp add: report_actions_def is_sleep_def)

lemma report_actions_reports: "length (filter is_report (report_actions config a cid c)) = 1"
  by (simp add: report_actions_def is_report_def)

lemma report_actions_hd: "hd (report_actions config a cid c @ xs) = Call_get_campaign cid"
  by (simp add: report_actions_def)

lemma report_actions_last: "\<not> is_sleep (last (report_actions config a cid c))"
  by (simp add: report_actions_def is_sleep_def)

lemma report_actions_nonempty: "report_actions config a cid c \<noteq> []"
  by (simp add: report_actions_def)

lemma sleep_kind: "\<not> is_fetch (Sleep i)" "\<not> is_report (Sleep i)" "is_sleep (Sleep i)"
  by (simp_all add: is_fetch_def is_report_def is_sleep_def)

lemma cycles_trace_fetches: "length (filter is_fetch (cycles_trace config a cid i cs)) = length cs"
  by (induction cs rule: cycles_trace.induct) (simp_all add: report_actions_fetches sleep_kind)

lemma cycles_trace_reports: "length (filter is_report (cycles_trace config a cid i cs)) = length cs"
  by (induction cs rule: cycles_trace.induct) (simp_all add: report_actions_reports sleep_kind)

lemma cycles_trace_sleeps: "length (filter is_sleep (cycles_trace config a cid i cs)) = length cs - 1"
  by (induction cs rule: cycles_trace.induct) (simp_all add: report_actions_sleeps sleep_kind)

lemma cycles_trace_nonempty: "cs \<noteq> [] \<Longrightarrow> cycles_trace config a cid i cs \<noteq> []"
  by (induction cs rule: cycles_trace.induct) (simp_all add: report_actions_nonempty)

lemma cycles_trace_hd: "cs \<noteq> [] \<Longrightarrow> hd (cycles_trace config a cid i cs) = Call_get_campaign cid"
  by (induction cs rule: cycles_trace.induct)
     (simp_all add: report_actions_hd report_actions_hd [where xs = "[]", simplified])

lemma cycles_trace_last: "cs \<noteq> [] \<Longrightarrow> \<not> is_sleep (last (cycles_trace config a cid i cs))"
  by (induction cs rule: cycles_trace.induct)
     (simp_all add: report_actions_last cycles_trace_nonempty)

lemma poll_loop_counted:
  assumes "0 < i" "0 < n" "int (length cs) = n"
  shows "poll_loop config a cid i n (map Inr cs @ rest) tr fs
         = \<lparr> out_status = Returned 0, out_trace = tr @ cycles_trace config a cid i cs,
             out_files = files_after a cs fs \<rparr>"
  using assms
proof (induction cs arbitrary: n tr fs)
  case Nil
  then show ?case by simp
next
  case (Cons c cs)
  show ?case
  proof (cases "cs = []")
    case True
    with Cons.prems show ?thesis
      by (simp add: Let_def files_after_def)
  next
    case False
    with Cons.prems have n: "0 < n - 1" "int (length cs) = n - 1" "n \<noteq> 0" "\<not> n - 1 \<le> 0"
      by (cases cs; simp)+
    from Cons.IH [OF Cons.prems(1) n(1) n(2)] Cons.prems(1) n False show ?thesis
      by (simp add: Let_def files_after_def cycles_trace_Cons)
  qed
qed

lemma poll_loop_until_completed:
  assumes "0 < i" "\<forall>c \<in> set pre. camp_status c \<noteq> Some ''Completed''"
  shows "poll_loop config a cid i 0 (map Inr pre @ script) tr fs
         = poll_loop config a cid i 0 script
             (tr @ concat (map (\<lambda>c. report_actions config a cid c @ [Sleep i]) pre))
             (files_after a pre fs)"
  using assms
proof (induction pre arbitrary: tr fs)
  case Nil
  show ?case by (simp add: files_after_def)
next
  case (Cons c pre)
  from Cons.prems have c: "camp_status c \<noteq> Some ''Completed''" and
    pre: "\<forall>c \<in> set pre. camp_status c \<noteq> Some ''Completed''"
    by simp_all
  from Cons.IH [OF Cons.prems(1) pre] Cons.prems(1) c show ?case
    by (simp add: Let_def files_after_def)
qed

lemma poll_loop_failed_fetch:
  "poll_loop config a cid i n (pre @ Inl (GophishError exc) # rest) tr fs
   = (if out_status (poll_loop config a cid i n pre tr fs) = Polling
      then \<lparr> out_status = Returned 1,
             out_trace = out_trace (poll_loop config a cid i n pre tr fs)
                         @ [Call_get_campaign cid, Stderr (''Failed to fetch campaign: '' @ exc)],
             out_files = out_files (poll_loop config a cid i n pre tr fs) \<rparr>
      else poll_loop config a cid i n pre tr fs)"
proof (induction pre arbitrary: n tr fs)
  case Nil
  show ?case by simp
next
  case (Cons x pre)
  show ?case
  proof (cases x)
    case (Inl e)
    then show ?thesis by (cases e) simp
  next
    case (Inr c)
    then show ?thesis
      by (simp add: Let_def Cons.IH)
  qed
qed


lemma report_poller_once:
  assumes "arg_poll_interval a \<le> 0"
  shows "report_poller config a cid (Inr c # rest) fs
         = \<lparr> out_status = Returned 0, out_trace = report_actions config a cid c,
             out_files = report_files a c fs \<rparr>"
  using assms by (simp add: report_poller_def Let_def max_def)

lemma report_poller_counted:
  assumes "0 < arg_poll_interval a" "0 < arg_poll_count a" "int (length cs) = arg_poll_count a"
  shows "report_poller config a cid (map Inr cs @ rest) fs
         = \<lparr> out_status = Returned 0,
             out_trace = cycles_trace config a cid (arg_poll_interval a) cs,
             out_files = files_after a cs fs \<rparr>"
proof -
  from assms(1) have "max (arg_poll_interval a) 0 = arg_poll_interval a" "arg_poll_interval a \<noteq> 0"
    by simp_all
  then show ?thesis
    using poll_loop_counted [OF assms, of config a cid rest "[]" fs]
    by (simp add: report_poller_def Let_def)
qed

text \<open>
  Claim C6.  The number of cycles of the report poller is fixed by its parameters.  With a
  poll interval of 0 (or below, which the flow raises to 0) and a first fetch that
  succeeds, it does exactly one cycle (one fetch, one report, the export when a CSV path is
  given, no sleep) and returns 0, whatever the poll count.  With a poll interval above 0,
  a poll count n above 0 and n fetches that succeed, it does exactly n cycles and returns
  0: n fetches, the first one first, and n - 1 sleeps of the interval, each between two
  cycles and none after the last.
\<close>

theorem C6_poll_cycle_count:
  "(arg_poll_interval a \<le> 0 \<longrightarrow>
      report_poller config a cid (Inr c # rest) fs
        = \<lparr> out_status = Returned 0, out_trace = report_actions config a cid c,
            out_files = report_files a c fs \<rparr>
      \<and> length (filter is_fetch (report_actions config a cid c)) = 1
      \<and> length (filter is_report (report_actions config a cid c)) = 1
      \<and> filter is_sleep (report_actions config a cid c) = [])
   \<and> (0 < arg_poll_interval a \<and> 0 < arg_poll_count a \<and> int (length cs) = arg_poll_count a \<longrightarrow>
      report_poller config a cid (map Inr cs @ rest) fs
        = \<lparr> out_status = Returned 0,
            out_trace = cycles_trace config a cid (arg_poll_interval a) cs,
            out_files = files_after a cs fs \<rparr>
      \<and> int (length (filter is_fetch (cycles_trace config a cid (arg_poll_interval a) cs)))
          = arg_poll_count a
      \<and> int (length (filter is_report (cycles_trace config a cid (arg_poll_interval a) cs)))
          = arg_poll_count a
      \<and> int (length (filter is_sleep (cycles_trace config a cid (arg_poll_interval a) cs)))
          = arg_poll_count a - 1
      \<and> hd (cycles_trace config a cid (arg_poll_interval a) cs) = Call_get_campaign cid
      \<and> \<not> is_sleep (last (cycles_trace config a cid (arg_poll_interval a) cs)))"
proof (intro conjI impI)
  assume "arg_poll_interval a \<le> 0"
  then show "report_poller config a cid (Inr c # rest) fs
        = \<lparr> out_status = Returned 0, out_trace = report_actions config a cid c,
            out_files = report_files a c fs \<rparr>"
    by (rule report_poller_once)
next
  show "length (filter is_fetch (report_actions config a cid c)) = 1"
    by (rule report_actions_fetches)
  show "length (filter is_report (report_actions config a cid c)) = 1"
    by (rule report_actions_reports)
  show "filter is_sleep (report_actions config a cid c) = []"
    by (rule report_actions_sleeps)
next
  assume h: "0 < arg_poll_interval a \<and> 0 < arg_poll_count a \<and> int (length cs) = arg_poll_count a"
  then have ne: "cs \<noteq> []" by auto
  from h show "report_poller config a cid (map Inr cs @ rest) fs
        = \<lparr> out_status = Returned 0,
            out_trace = cycles_trace config a cid (arg_poll_interval a) cs,
            out_files = files_after a cs fs \<rparr>"
    by (simp add: report_poller_counted)
  from h show "int (length (filter is_fetch (cycles_trace config a cid (arg_poll_interval a) cs)))
          = arg_poll_count a"
    by (simp add: cycles_trace_fetches)
  from h show "int (length (filter is_report (cycles_trace config a cid (arg_poll_interval a) cs)))
          = arg_poll_count a"
    by (simp add: cycles_trace_reports)
  from h ne show "int (length (filter is_sleep (cycles_trace config a cid (arg_poll_interval a) cs)))
          = arg_poll_count a - 1"
    by (cases cs) (simp_all add: cycles_trace_sleeps)
  from ne show "hd (cycles_trace config a cid (arg_poll_interval a) cs) = Call_get_campaign cid"
    by (rule cycles_trace_hd)
  from ne show "\<not> is_sleep (last (cycles_trace config a cid (arg_poll_interval a) cs))"
    by (rule cycles_trace_last)
qed

theorem C6_poll_cycle_count_witness:
  "arg_poll_interval (poll_args 0 9) \<le> 0
   \<and> report_poller sample_config (poll_args 0 9) 7
        [Inr sample_campaign, Inr completed_campaign] Map.empty
      = \<lparr> out_status = Returned 0,
          out_trace = report_actions sample_config (poll_args 0 9) 7 sample_campaign,
          out_files = report_files (poll_args 0 9) sample_campaign Map.empty \<rparr>
   \<and> 0 < arg_poll_interval (poll_args 5 3) \<and> 0 < arg_poll_count (poll_args 5 3)
   \<and> int (length [sample_campaign, sample_campaign, completed_campaign]) = arg_poll_count (poll_args 5 3)
   \<and> report_poller sample_config (poll_args 5 3) 7
        (map Inr [sample_campaign, sample_campaign, completed_campaign] @ [Inr sample_campaign])
        Map.empty
      = \<lparr> out_status = Returned 0,
          out_trace = report_actions sample_config (poll_args 5 3) 7 sample_campaign @ [Sleep 5]
                      @ report_actions sample_config (poll_args 5 3) 7 sample_campaign @ [Sleep 5]
                      @ report_actions sample_config (poll_args 5 3) 7 completed_campaign,
          out_files = files_after (poll_args 5 3)
                        [sample_campaign, sample_campaign, completed_campaign] Map.empty \<rparr>
   \<and> length (filter is_fetch (cycles_trace sample_config (poll_args 5 3) 7 5
        [sample_campaign, sample_campaign, completed_campaign])) = 3
   \<and> length (filter is_sleep (cycles_trace sample_config (poll_args 5 3) 7 5
        [sample_campaign, sample_campaign, completed_campaign])) = 2"
proof -
  have i0: "arg_poll_interval (poll_args 0 9) = 0"
    and i5: "arg_poll_interval (poll_args 5 3) = 5" and n3: "arg_poll_count (poll_args 5 3) = 3"
    by (simp_all add: poll_args_def)
  note a = C6_poll_cycle_count [of "poll_args 0 9" sample_config 7 sample_campaign
      "[Inr completed_campaign]" Map.empty "[]", THEN conjunct1]
  note b = C6_poll_cycle_count [of "poll_args 5 3" sample_config 7 sample_campaign "[Inr sample_campaign]"
      Map.empty "[sample_campaign, sample_campaign, completed_campaign]", THEN conjunct2]
  from a i0 have a': "report_poller sample_config (poll_args 0 9) 7
        [Inr sample_campaign, Inr completed_campaign] Map.empty
      = \<lparr> out_status = Returned 0,
          out_trace = report_actions sample_config (poll_args 0 9) 7 sample_campaign,
          out_files = report_files (poll_args 0 9) sample_campaign Map.empty \<rparr>"
    by simp
  from b have b': "report_poller sample_config (poll_args 5 3) 7
        (map Inr [sample_campaign, sample_campaign, completed_campaign] @ [Inr sample_campaign])
        Map.empty
      = \<lparr> out_status = Returned 0,
          out_trace = cycles_trace sample_config (poll_args 5 3) 7 5
                        [sample_campaign, sample_campaign, completed_campaign],
          out_files = files_after (poll_args 5 3)
                        [sample_campaign, sample_campaign, completed_campaign] Map.empty \<rparr>"
    and b2: "length (filter is_fetch (cycles_trace sample_config (poll_args 5 3) 7 5
        [sample_campaign, sample_campaign, completed_campaign])) = 3"
    and b3: "length (filter is_sleep (cycles_trace sample_config (poll_args 5 3) 7 5
        [sample_campaign, sample_campaign, completed_campaign])) = 2"
    unfolding i5 n3 by simp_all
  from a' b' b2 b3 show ?thesis
    unfolding i0 i5 n3 by simp
qed


lemma report_poller_until_completed:
  assumes "0 < arg_poll_interval a" "arg_poll_count a = 0"
    and "\<forall>c \<in> set pre. camp_status c \<noteq> Some ''Completed''"
  shows "report_poller config a cid (map Inr pre @ script) fs
         = poll_loop config a cid (arg_poll_interval a) 0 script
             (waiting_trace config a cid (arg_poll_interval a) pre) (files_after a pre fs)"
proof -
  from assms(1) have "max (arg_poll_interval a) 0 = arg_poll_interval a" "arg_poll_interval a \<noteq> 0"
    by simp_all
  then show ?thesis
    using poll_loop_until_completed [OF assms(1) assms(3), of config a cid script "[]" fs] assms(2)
    by (simp add: report_poller_def Let_def waiting_trace_def)
qed

lemma files_after_snoc: "files_after a (pre @ [c]) fs = report_files a c (files_after a pre fs)"
  by (simp add: files_after_def)

text \<open>
  Claim C7.  With a poll interval above 0 and a poll count of 0, while the fetches succeed
  with a status other than "Completed" the poller goes on, a sleep of the interval after
  each cycle, and has not returned; at the first fetch whose status is "Completed" it
  returns 0 after that cycle, without a further sleep.
\<close>

theorem C7_poll_until_completed:
  "0 < arg_poll_interval a \<and> arg_poll_count a = 0
     \<and> (\<forall>c \<in> set pre. camp_status c \<noteq> Some ''Completed'') \<longrightarrow>
     (camp_status c = Some ''Completed'' \<longrightarrow>
        report_poller config a cid (map Inr pre @ Inr c # rest) fs
          = \<lparr> out_status = Returned 0,
              out_trace = cycles_trace config a cid (arg_poll_interval a) (pre @ [c]),
              out_files = files_after a (pre @ [c]) fs \<rparr>
        \<and> length (filter is_fetch (cycles_trace config a cid (arg_poll_interval a) (pre @ [c])))
            = length pre + 1
        \<and> length (filter is_sleep (cycles_trace config a cid (arg_poll_interval a) (pre @ [c])))
            = length pre)
     \<and> report_poller config a cid (map Inr pre) fs
          = \<lparr> out_status = Polling,
              out_trace = waiting_trace config a cid (arg_poll_interval a) pre,
              out_files = files_after a pre fs \<rparr>"
proof (intro impI conjI)
  assume h: "0 < arg_poll_interval a \<and> arg_poll_count a = 0
     \<and> (\<forall>c \<in> set pre. camp_status c \<noteq> Some ''Completed'')"
  then have h1: "0 < arg_poll_interval a" and h2: "arg_poll_count a = 0"
    and h3: "\<forall>c \<in> set pre. camp_status c \<noteq> Some ''Completed''"
    by simp_all
  from report_poller_until_completed [OF h1 h2 h3, of config cid "[]" fs]
  show "report_poller config a cid (map Inr pre) fs
          = \<lparr> out_status = Polling,
              out_trace = waiting_trace config a cid (arg_poll_interval a) pre,
              out_files = files_after a pre fs \<rparr>"
    by simp
  show "length (filter is_fetch (cycles_trace config a cid (arg_poll_interval a) (pre @ [c])))
            = length pre + 1"
    by (simp add: cycles_trace_fetches)
  show "length (filter is_sleep (cycles_trace config a cid (arg_poll_interval a) (pre @ [c])))
            = length pre"
    by (simp add: cycles_trace_sleeps)
  assume c: "camp_status c = Some ''Completed''"
  from report_poller_until_completed [OF h1 h2 h3, of config cid "Inr c # rest" fs] h1 c
  show "report_poller config a cid (map Inr pre @ Inr c # rest) fs
          = \<lparr> out_status = Returned 0,
              out_trace = cycles_trace config a cid (arg_poll_interval a) (pre @ [c]),
              out_files = files_after a (pre @ [c]) fs \<rparr>"
    by (simp add: Let_def cycles_trace_snoc waiting_trace_def files_after_snoc)
qed

lemma sample_status: "camp_status sample_campaign \<noteq> Some ''Completed''"
  "camp_status completed_campaign = Some ''Completed''"
  by (simp_all add: sample_campaign_def completed_campaign_def)

theorem C7_poll_until_completed_witness:
  "0 < arg_poll_interval (poll_args 5 0) \<and> arg_poll_count (poll_args 5 0) = 0
   \<and> camp_status sample_campaign \<noteq> Some ''Completed''
   \<and> camp_status completed_campaign = Some ''Completed''
   \<and> report_poller sample_config (poll_args 5 0) 7
        (map Inr [sample_campaign, sample_campaign] @ Inr completed_campaign # [Inr sample_campaign])
        Map.empty
      = \<lparr> out_status = Returned 0,
          out_trace = cycles_trace sample_config (poll_args 5 0) 7 5
                        ([sample_campaign, sample_campaign] @ [completed_campaign]),
          out_files = files_after (poll_args 5 0)
                        ([sample_campaign, sample_campaign] @ [completed_campaign]) Map.empty \<rparr>
   \<and> length (filter is_fetch (cycles_trace sample_config (poll_args 5 0) 7 5
        ([sample_campaign, sample_campaign] @ [completed_campaign]))) = 3
   \<and> out_status (report_poller sample_config (poll_args 5 0) 7
        (map Inr [sample_campaign, sample_campaign]) Map.empty) = Polling"
proof -
  have i5: "arg_poll_interval (poll_args 5 0) = 5" and n0: "arg_poll_count (poll_args 5 0) = 0"
    by (simp_all add: poll_args_def)
  have pre: "\<forall>c \<in> set [sample_campaign, sample_campaign]. camp_status c \<noteq> Some ''Completed''"
    by (simp add: sample_status)
  have h: "0 < arg_poll_interval (poll_args 5 0) \<and> arg_poll_count (poll_args 5 0) = 0
     \<and> (\<forall>c \<in> set [sample_campaign, sample_campaign]. camp_status c \<noteq> Some ''Completed'')"
    using pre by (simp add: i5 n0)
  note t = C7_poll_until_completed [of "poll_args 5 0" "[sample_campaign, sample_campaign]"
      completed_campaign sample_config 7 "[Inr sample_campaign]" Map.empty, rule_format, OF h]
  from t sample_status(2) have 1: "report_poller sample_config (poll_args 5 0) 7
        (map Inr [sample_campaign, sample_campaign] @ Inr completed_campaign # [Inr sample_campaign])
        Map.empty
      = \<lparr> out_status = Returned 0,
          out_trace = cycles_trace sample_config (poll_args 5 0) 7 5
                        ([sample_campaign, sample_campaign] @ [completed_campaign]),
          out_files = files_after (poll_args 5 0)
                        ([sample_campaign, sample_campaign] @ [completed_campaign]) Map.empty \<rparr>"
    and 2: "length (filter is_fetch (cycles_trace sample_config (poll_args 5 0) 7 5
        ([sample_campaign, sample_campaign] @ [completed_campaign]))) = 3"
    unfolding i5 by simp_all
  from t have 3: "out_status (report_poller sample_config (poll_args 5 0) 7
        (map Inr [sample_campaign, sample_campaign]) Map.empty) = Polling"
    by simp
  from 1 2 3 sample_status show ?thesis
    unfolding i5 n0 by simp
qed

lemma report_poller_failed_fetch:
  "report_poller config a cid (pre @ Inl (GophishError exc) # rest) fs
   = (if out_status (report_poller config a cid pre fs) = Polling
      then \<lparr> out_status = Returned 1,
             out_trace = out_trace (report_poller config a cid pre fs)
                         @ [Call_get_campaign cid, Stderr (''Failed to fetch campaign: '' @ exc)],
             out_files = out_files (report_poller config a cid pre fs) \<rparr>
      else report_poller config a cid pre fs)"
  unfolding report_poller_def Let_def by (rule poll_loop_failed_fetch)

text \<open>
  Claim C8.  A failed fetch ends the polling run at once.  For any answers \<open>pre\<close> before
  the failure: if the poller was still running after them, it returns 1 having added only
  the failed request and the error message to what it had done, with the files as they
  were; if it had returned already, the failure is never met.  Whatever answers come
  after the failure are not used: there is no retry.
\<close>

theorem C8_failed_fetch_aborts:
  "report_poller config a cid (pre @ Inl (GophishError exc) # rest) fs
   = (if out_status (report_poller config a cid pre fs) = Polling
      then \<lparr> out_status = Returned 1,
             out_trace = out_trace (report_poller config a cid pre fs)
                         @ [Call_get_campaign cid, Stderr (''Failed to fetch campaign: '' @ exc)],
             out_files = out_files (report_poller config a cid pre fs) \<rparr>
      else report_poller config a cid pre fs)
   \<and> report_poller config a cid (pre @ Inl (GophishError exc) # rest) fs
     = report_poller config a cid (pre @ [Inl (GophishError exc)]) fs"
proof -
  have "report_poller config a cid (pre @ Inl (GophishError exc) # rest') fs
   = (if out_status (report_poller config a cid pre fs) = Polling
      then \<lparr> out_status = Returned 1,
             out_trace = out_trace (report_poller config a cid pre fs)
                         @ [Call_get_campaign cid, Stderr (''Failed to fetch campaign: '' @ exc)],
             out_files = out_files (report_poller config a cid pre fs) \<rparr>
      else report_poller config a cid pre fs)" for rest'
    by (rule report_poller_failed_fetch)
  from this [of rest] this [of "[]"] show ?thesis
    by (simp only: simp_thms)
qed

theorem C8_failed_fetch_aborts_witness:
  "out_status (report_poller sample_config (poll_args 5 0) 7 [Inr sample_campaign] Map.empty) = Polling
   \<and> report_poller sample_config (poll_args 5 0) 7
        ([Inr sample_campaign] @ Inl (GophishError ''Failed to reach Gophish'')
           # [Inr completed_campaign]) Map.empty
      = \<lparr> out_status = Returned 1,
          out_trace = report_actions sample_config (poll_args 5 0) 7 sample_campaign
                      @ [Sleep 5, Call_get_campaign 7,
                         Stderr ''Failed to fetch campaign: Failed to reach Gophish''],
          out_files = report_files (poll_args 5 0) sample_campaign Map.empty \<rparr>"
proof -
  have p: "report_poller sample_config (poll_args 5 0) 7 [Inr sample_campaign] Map.empty
      = \<lparr> out_status = Polling,
          out_trace = report_actions sample_config (poll_args 5 0) 7 sample_campaign @ [Sleep 5],
          out_files = report_files (poll_args 5 0) sample_campaign Map.empty \<rparr>"
    by (simp add: report_poller_def Let_def poll_args_def sample_status)
  from C8_failed_fetch_aborts [of sample_config "poll_args 5 0" 7 "[Inr sample_campaign]"
      "''Failed to reach Gophish''" "[Inr completed_campaign]" Map.empty, THEN conjunct1]
  show ?thesis
    unfolding p by simp
qed

section \<open>Properties of the command line flow\<close>









lemma run_blocked:
  assumes "w_config w = Inr config" "enforce_safety config a = Inl (ConfigError exc)"
  shows "run a w = stop 1 [Stderr (''Safety check failed: '' @ exc)] (w_files w)"
  using assms by (simp add: run_def)











lemma blocked_run:
  "run (send_args False ''yes'') (sample_world live_config)
   = stop 1 [Stderr (''Safety check failed: '' @
       ''Missing --confirm phrase. Use --confirm I-UNDERSTAND-THIS-IS-AWARENESS to proceed.'')]
       Map.empty"
proof -
  have s: "enforce_safety live_config (send_args False ''yes'')
     = Inl (ConfigError ''Missing --confirm phrase. Use --confirm I-UNDERSTAND-THIS-IS-AWARENESS to proceed.'')"
    by (simp add: enforce_safety_def send_args_def live_config_def CONFIRM_PHRASE_def)
  have c: "w_config (sample_world live_config) = Inr live_config"
    "w_files (sample_world live_config) = Map.empty"
    by (simp_all add: sample_world_def)
  show ?thesis
    unfolding run_blocked [OF c(1) s] by (simp add: c)
qed


end
